theory Spec2Isabelle
  imports Complex_Main "HOL-Library.Word" "HOL-Library.Sublist" "HOL-Library.Log_Nat"
begin

text \<open>
  A shallow embedding of the logic of the Code-Learning-Assistant front end: the rule
  checks of \<open>CodeAnalyzer.tsx\<close>, the suggestion filter of \<open>DebugHelper.tsx\<close>, the step
  navigation of \<open>TutorialSystem.tsx\<close> and the exercise picker of
  \<open>ExerciseGenerator.tsx\<close>. Each handler of a component is a function on the record of
  the component's \<open>useState\<close> cells; a callback prop is an output of the handler; a
  timer callback is an entry of a list of pending callbacks. The catalogs are the array
  literals of the source. The definitions come first, the properties follow from
  \<open>Properties of the analysis\<close> on.
\<close>

section \<open>JavaScript strings\<close>

text \<open>
  A JavaScript string is a sequence of UTF-16 code units; \<open>length\<close> counts code units,
  and \<open>includes\<close>, \<open>split\<close> and \<open>trim\<close> work on code units. A string of the model is
  therefore a list of 16-bit words. \<open>str\<close> embeds an ASCII literal (one code unit per
  character); a character outside ASCII is written as its code unit.
\<close>

type_synonym code_unit = "16 word"
type_synonym jsstring = "code_unit list"

definition str :: "string \<Rightarrow> jsstring" where
  "str s = map of_char s"

definition newline :: code_unit where
  "newline = 0x0A"

text \<open>A template literal that spans several source lines: the lines joined by U+000A.\<close>

fun lns :: "jsstring list \<Rightarrow> jsstring" where
  "lns [] = []"
| "lns [l] = l"
| "lns (l # ls) = l @ newline # lns ls"

text \<open>
  \<open>String.prototype.includes\<close>: some position of the string starts an occurrence of
  the search string (the empty search string occurs everywhere).
\<close>

fun includes_str :: "'a list \<Rightarrow> 'a list \<Rightarrow> bool" where
  "includes_str [] searchString = (searchString = [])"
| "includes_str (c # cs) searchString =
     (prefix searchString (c # cs) \<or> includes_str cs searchString)"

text \<open>
  \<open>String.prototype.split\<close> with a one-code-unit separator: the segments between the
  separators, in order; the empty string splits into one empty segment.
\<close>

fun split_str :: "'a list \<Rightarrow> 'a \<Rightarrow> 'a list list" where
  "split_str [] sep = [[]]"
| "split_str (c # cs) sep =
     (if c = sep then [] # split_str cs sep
      else (case split_str cs sep of
              [] \<Rightarrow> [[c]]
            | l # ls \<Rightarrow> (c # l) # ls))"

text \<open>
  \<open>Array.prototype.some\<close> is \<^const>\<open>list_ex\<close>. \<open>String.prototype.trim\<close> removes the
  leading and trailing code units that are WhiteSpace or LineTerminator in ECMAScript
  (all of them lie in the basic plane, so the test is per code unit).
\<close>

definition isWhiteSpace :: "code_unit \<Rightarrow> bool" where
  "isWhiteSpace c =
     (c = 0x0009 \<or> c = 0x000A \<or> c = 0x000B \<or> c = 0x000C \<or> c = 0x000D \<or>
      c = 0x0020 \<or> c = 0x00A0 \<or> c = 0x1680 \<or> (0x2000 \<le> c \<and> c \<le> 0x200A) \<or>
      c = 0x2028 \<or> c = 0x2029 \<or> c = 0x202F \<or> c = 0x205F \<or> c = 0x3000 \<or>
      c = 0xFEFF)"

definition trim :: "jsstring \<Rightarrow> jsstring" where
  "trim s = rev (dropWhile isWhiteSpace (rev (dropWhile isWhiteSpace s)))"

text \<open>A string is truthy when it is not empty.\<close>

definition truthy :: "jsstring \<Rightarrow> bool" where
  "truthy s = (s \<noteq> [])"


section \<open>JavaScript numbers\<close>

text \<open>
  A JavaScript number is an IEEE 754 binary64 value. The numbers of this program that
  go through arithmetic are the outcome of \<open>Math.random()\<close> and the length of an array:
  finite and not negative. Such a number is \<open>m * 2 ^ e\<close> with a mantissa \<open>m\<close> below
  \<open>2 ^ 53\<close> and an exponent \<open>e\<close> from -1074 to 971; the model keeps the pair. Several
  pairs stand for the same number, and every operation below depends on the number
  alone.
\<close>

type_synonym double = "nat \<times> int"

definition is_double :: "double \<Rightarrow> bool" where
  "is_double d = (case d of (m, e) \<Rightarrow> m < 2 ^ 53 \<and> - 1074 \<le> e \<and> e \<le> 971)"

definition double_value :: "double \<Rightarrow> real" where
  "double_value d =
     (case d of (m, e) \<Rightarrow>
        if 0 \<le> e then real m * 2 ^ nat e else real m / 2 ^ nat (- e))"

text \<open>An array length is below \<open>2 ^ 32\<close> and is a double exactly.\<close>

definition double_of_nat :: "nat \<Rightarrow> double" where
  "double_of_nat n = (n, 0)"

text \<open>
  \<open>p / 2 ^ k\<close> rounded to the nearest natural number, a tie to the even one: the
  rounding of binary64 arithmetic.
\<close>

definition round_half_even :: "nat \<Rightarrow> nat \<Rightarrow> nat" where
  "round_half_even p k =
     (let q = p div 2 ^ k; r = p mod 2 ^ k
      in if 2 * r > 2 ^ k \<or> (2 * r = 2 ^ k \<and> odd q) then q + 1 else q)"

text \<open>
  The product \<open>a * b\<close> of two doubles: the exact product \<open>p * 2 ^ e\<close>, rounded to the
  nearest double. With \<open>k\<close> the number of bits of \<open>p\<close> beyond 53, or the distance of
  \<open>e\<close> below -1074 if that is larger, the doubles around the exact product are the
  multiples of \<open>2 ^ (e + k)\<close>, and the product is rounded to one of them. The mantissa
  \<open>2 ^ 53\<close> can come out of the rounding; it is the double \<open>2 ^ 52 * 2 ^ (e + k + 1)\<close>.
  A product of \<open>2 ^ 1024\<close> or more is \<open>Infinity\<close> in JavaScript and stays the large
  number here: both are beyond every array index.
\<close>

definition mul_double :: "double \<Rightarrow> double \<Rightarrow> double" where
  "mul_double a b =
     (case a of (m1, e1) \<Rightarrow> case b of (m2, e2) \<Rightarrow>
        (let p = m1 * m2;
             e = e1 + e2;
             k = nat (max 0 (max (bitlen (int p) - 53) (- 1074 - e)))
         in (round_half_even p k, e + int k)))"

text \<open>\<open>Math.floor\<close> of a double that is not negative: an integer.\<close>

definition Math_floor :: "double \<Rightarrow> int" where
  "Math_floor d =
     (case d of (m, e) \<Rightarrow>
        int (if 0 \<le> e then m * 2 ^ nat e else m div 2 ^ nat (- e)))"


section \<open>CodeAnalyzer.tsx\<close>

datatype analysis_type = Error | Warning | Info | Suggestion

datatype severity_level = High | Medium | Low

text \<open>
  The interface \<open>AnalysisResult\<close>. Its fields \<open>type\<close>, \<open>message\<close>, \<open>line\<close>, \<open>severity\<close>
  and \<open>fix\<close> carry the prefix \<open>ar_\<close>; an optional field is an option.
\<close>

record AnalysisResult =
  ar_type :: analysis_type
  ar_message :: jsstring
  ar_line :: "int option"
  ar_severity :: severity_level
  ar_fix :: "jsstring option"

text \<open>The five object literals that \<open>analyzeCode\<close> pushes, in source order.\<close>

definition var_warning :: AnalysisResult where
  \<open>var_warning =
     \<lparr>ar_type = Warning,
      ar_message = str ''Use "let" or "const" instead of "var" for better scoping'',
      ar_line = None,
      ar_severity = Medium,
      ar_fix = Some (str ''Replace "var" with "let" or "const"'')\<rparr>\<close>

definition console_log_info :: AnalysisResult where
  "console_log_info =
     \<lparr>ar_type = Info,
      ar_message = str ''Console.log detected - remember to remove in production'',
      ar_line = None,
      ar_severity = Low,
      ar_fix = Some (str ''Use proper logging library or remove debug statements'')\<rparr>"

definition extract_functions_suggestion :: AnalysisResult where
  "extract_functions_suggestion =
     \<lparr>ar_type = Suggestion,
      ar_message = str ''Consider breaking this code into functions for better modularity'',
      ar_line = None,
      ar_severity = Medium,
      ar_fix = Some (str ''Extract reusable logic into separate functions'')\<rparr>"

definition long_line_warning :: AnalysisResult where
  "long_line_warning =
     \<lparr>ar_type = Warning,
      ar_message = str ''Some lines are too long (>120 characters)'',
      ar_line = None,
      ar_severity = Low,
      ar_fix = Some (str ''Break long lines for better readability'')\<rparr>"

definition for_forEach_suggestion :: AnalysisResult where
  "for_forEach_suggestion =
     \<lparr>ar_type = Suggestion,
      ar_message = str ''Consider using map/filter/reduce for functional programming'',
      ar_line = None,
      ar_severity = Low,
      ar_fix = Some (str ''Use functional array methods when appropriate'')\<rparr>"

text \<open>\<open>Array.prototype.push\<close> on the local array \<open>results\<close>.\<close>

definition push :: "'a list \<Rightarrow> 'a \<Rightarrow> 'a list" where
  "push results r = results @ [r]"

text \<open>
  The body of the timer callback of \<open>analyzeCode\<close> (lines 30 to 78): the array
  \<open>results\<close> it hands to \<open>setAnalysis\<close>, computed from the props \<open>code\<close> and
  \<open>language\<close> that the callback closes over. Each \<open>if\<close> statement is one rebinding of
  \<open>results\<close>.
\<close>

definition analyzeCode_results :: "jsstring \<Rightarrow> jsstring \<Rightarrow> AnalysisResult list" where
  "analyzeCode_results code language =
     (let results = [];
          results = (if includes_str code (str ''var '')
                     then push results var_warning else results);
          results = (if includes_str code (str ''console.log'') \<and> language = str ''javascript''
                     then push results console_log_info else results);
          results = (if \<not> includes_str code (str ''function'') \<and> \<not> includes_str code (str ''=>'')
                        \<and> length code > 50
                     then push results extract_functions_suggestion else results);
          results = (if list_ex (\<lambda>line. length line > 120) (split_str code newline)
                     then push results long_line_warning else results);
          results = (if includes_str code (str ''for'') \<and> includes_str code (str ''forEach'')
                     then push results for_forEach_suggestion else results)
      in results)"

subsection \<open>The component CodeAnalyzer\<close>

text \<open>
  The state of the component: the two \<open>useState\<close> cells, the timer callbacks that
  \<open>setTimeout\<close> has scheduled and that have not run yet (oldest first; all have the
  same delay of 1500 ms, so they run in the order they were scheduled), each with the
  props \<open>code\<close> and \<open>language\<close> that its closure captured, and the dependency array
  \<open>[code, language]\<close> that React recorded at the last render (\<open>None\<close> before the first
  render).
\<close>

record analyzer_state =
  analysis :: "AnalysisResult list"
  isAnalyzing :: bool
  timers :: "(jsstring \<times> jsstring) list"
  deps :: "(jsstring \<times> jsstring) option"

definition initial_analyzer :: analyzer_state where
  "initial_analyzer = \<lparr>analysis = [], isAnalyzing = False, timers = [], deps = None\<rparr>"

text \<open>\<open>analyzeCode\<close> (line 25): sets the flag and schedules the callback.\<close>

definition analyzeCode :: "jsstring \<Rightarrow> jsstring \<Rightarrow> analyzer_state \<Rightarrow> analyzer_state" where
  "analyzeCode code language s =
     s\<lparr>isAnalyzing := True, timers := timers s @ [(code, language)]\<rparr>"

text \<open>The oldest scheduled callback runs: \<open>setAnalysis(results); setIsAnalyzing(false)\<close>.\<close>

definition timer_fires :: "analyzer_state \<Rightarrow> analyzer_state" where
  "timer_fires s =
     (case timers s of
        [] \<Rightarrow> s
      | (code, language) # rest \<Rightarrow>
          s\<lparr>analysis := analyzeCode_results code language,
            isAnalyzing := False,
            timers := rest\<rparr>)"

text \<open>The effect (lines 84 to 88): \<open>if (code.trim()) analyzeCode()\<close>.\<close>

definition useEffect :: "jsstring \<Rightarrow> jsstring \<Rightarrow> analyzer_state \<Rightarrow> analyzer_state" where
  "useEffect code language s =
     (if truthy (trim code) then analyzeCode code language s else s)"

text \<open>
  A render with the props \<open>code\<close> and \<open>language\<close>: React runs the effect after the first
  render and after every render in which a dependency differs from the recorded one.
\<close>

definition render :: "jsstring \<Rightarrow> jsstring \<Rightarrow> analyzer_state \<Rightarrow> analyzer_state" where
  "render code language s =
     (if deps s = Some (code, language) then s
      else useEffect code language (s\<lparr>deps := Some (code, language)\<rparr>))"

datatype analyzer_event = Render jsstring jsstring | TimerFires

fun analyzer_step :: "analyzer_event \<Rightarrow> analyzer_state \<Rightarrow> analyzer_state" where
  "analyzer_step (Render code language) s = render code language s"
| "analyzer_step TimerFires s = timer_fires s"

fun analyzer_run :: "analyzer_event list \<Rightarrow> analyzer_state \<Rightarrow> analyzer_state" where
  "analyzer_run [] s = s"
| "analyzer_run (e # es) s = analyzer_run es (analyzer_step e s)"


subsection \<open>The rules as the specification words them\<close>

text \<open>
  "The text contains the literal substring p" is \<^term>\<open>sublist p text\<close>: the text is some
  prefix, then p, then some suffix. "Some line exceeds n characters" is: the text has a
  run of more than n code units with no newline among them.
\<close>

definition has_long_line :: "'a list \<Rightarrow> 'a \<Rightarrow> nat \<Rightarrow> bool" where
  "has_long_line text nl n = (\<exists>seg. sublist seg text \<and> nl \<notin> set seg \<and> length seg > n)"

text \<open>
  The rule table of the specification: each rule's condition on the code and the
  language, and the finding it emits, in the rule order of the specification.
\<close>

definition rule_table :: "((jsstring \<Rightarrow> jsstring \<Rightarrow> bool) \<times> AnalysisResult) list" where
  "rule_table =
     [(\<lambda>code language. sublist (str ''var '') code,
       var_warning),
      (\<lambda>code language. sublist (str ''console.log'') code \<and> language = str ''javascript'',
       console_log_info),
      (\<lambda>code language. \<not> sublist (str ''function'') code \<and> \<not> sublist (str ''=>'') code
         \<and> length code > 50,
       extract_functions_suggestion),
      (\<lambda>code language. has_long_line code newline 120,
       long_line_warning),
      (\<lambda>code language. sublist (str ''for'') code \<and> sublist (str ''forEach'') code,
       for_forEach_suggestion)]"


text \<open>
  A code text for every choice of rules: rule 1 fires iff \<open>b1\<close>, and so on. The marker
  of each wanted rule is put in, \<open>=>\<close> switches rule 3 off, 121 letters \<open>x\<close> make a
  long line, and 51 newlines make the text longer than 50 code units.
\<close>

definition subset_core :: "bool \<Rightarrow> bool \<Rightarrow> bool \<Rightarrow> bool \<Rightarrow> jsstring" where
  "subset_core b1 b2 b3 b5 =
     (if b1 then str ''var '' else []) @
     (if b2 then str ''console.log'' else []) @
     (if b3 then [] else str ''=>'') @
     (if b5 then str ''forEach'' else [])"

definition subset_code :: "bool \<Rightarrow> bool \<Rightarrow> bool \<Rightarrow> bool \<Rightarrow> bool \<Rightarrow> jsstring" where
  "subset_code b1 b2 b3 b4 b5 =
     replicate (if b4 then 121 else 0) 0x78 @ subset_core b1 b2 b3 b5 @ replicate 51 newline"



section \<open>DebugHelper.tsx\<close>

datatype suggestion_type = ErrorS | WarningS | TipS

text \<open>
  The interface \<open>DebugSuggestion\<close> (fields with the prefix \<open>ds_\<close>) and the catalog
  \<open>commonIssues\<close> (lines 20 to 89), entry by entry.
\<close>

record DebugSuggestion =
  ds_id :: jsstring
  ds_type :: suggestion_type
  ds_title :: jsstring
  ds_description :: jsstring
  ds_solution :: jsstring
  ds_codeExample :: "jsstring option"

definition commonIssues_1 :: DebugSuggestion where
  \<open>commonIssues_1 =
     \<lparr>ds_id = str ''1'',
      ds_type = ErrorS,
      ds_title = str ''Undefined Variable'',
      ds_description = str ''Variable is being used before declaration or is out of scope'',
      ds_solution = str ''Declare the variable before using it, or check if it's accessible in the current scope.'',
      ds_codeExample = Some (lns [str ''// '' @ [0x274C] @ str '' Wrong'',
                            str ''console.log(name); // Error: name is not defined'',
                            [],
                            str ''// '' @ [0x2705] @ str '' Correct'',
                            str ''let name = "John";'',
                            str ''console.log(name);''])\<rparr>\<close>

definition commonIssues_2 :: DebugSuggestion where
  \<open>commonIssues_2 =
     \<lparr>ds_id = str ''2'',
      ds_type = ErrorS,
      ds_title = str ''Cannot read property of undefined'',
      ds_description = str ''Trying to access a property of an undefined or null object'',
      ds_solution = str ''Use optional chaining (?.) or check if the object exists before accessing properties.'',
      ds_codeExample = Some (lns [str ''// '' @ [0x274C] @ str '' Wrong'',
                            str ''const user = null;'',
                            str ''console.log(user.name); // Error'',
                            [],
                            str ''// '' @ [0x2705] @ str '' Correct'',
                            str ''const user = null;'',
                            str ''console.log(user?.name); // undefined (no error)'',
                            str ''// or'',
                            str ''if (user) {'',
                            str ''  console.log(user.name);'',
                            str ''}''])\<rparr>\<close>

definition commonIssues_3 :: DebugSuggestion where
  \<open>commonIssues_3 =
     \<lparr>ds_id = str ''3'',
      ds_type = WarningS,
      ds_title = str ''Infinite Loop'',
      ds_description = str ''Loop condition never becomes false, causing the program to hang'',
      ds_solution = str ''Ensure the loop variable is properly updated and the condition will eventually be false.'',
      ds_codeExample = Some (lns [str ''// '' @ [0x274C] @ str '' Wrong'',
                            str ''let i = 0;'',
                            str ''while (i < 10) {'',
                            str ''  console.log(i); // i never changes!'',
                            str ''}'',
                            [],
                            str ''// '' @ [0x2705] @ str '' Correct'',
                            str ''let i = 0;'',
                            str ''while (i < 10) {'',
                            str ''  console.log(i);'',
                            str ''  i++; // Update the counter'',
                            str ''}''])\<rparr>\<close>

definition commonIssues_4 :: DebugSuggestion where
  \<open>commonIssues_4 =
     \<lparr>ds_id = str ''4'',
      ds_type = TipS,
      ds_title = str ''Array Index Out of Bounds'',
      ds_description = str ''Accessing array elements with invalid indices'',
      ds_solution = str ''Check array length before accessing elements or use safe methods.'',
      ds_codeExample = Some (lns [str ''// '' @ [0x274C] @ str '' Risky'',
                            str ''const arr = [1, 2, 3];'',
                            str ''console.log(arr[10]); // undefined'',
                            [],
                            str ''// '' @ [0x2705] @ str '' Safe'',
                            str ''const arr = [1, 2, 3];'',
                            str ''if (arr.length > 10) {'',
                            str ''  console.log(arr[10]);'',
                            str ''}'',
                            str ''// or use optional chaining'',
                            str ''console.log(arr.at(10)); // undefined (safe)''])\<rparr>\<close>

definition commonIssues :: "DebugSuggestion list" where
  "commonIssues = [commonIssues_1, commonIssues_2, commonIssues_3, commonIssues_4]"

text \<open>
  The timer callback of \<open>analyzeError\<close> (lines 106 to 117). \<open>errorDescription\<close> is the
  text of the description field, \<open>code\<close> the prop. \<open>String.prototype.toLowerCase\<close> is
  the Unicode case mapping of the JavaScript runtime; the model takes it as the
  parameter \<open>toLowerCase\<close>, so that everything proved holds for every such mapping.
  The filter callback binds \<open>issue\<close> and never reads it.
\<close>

definition relevantSuggestions ::
  "(jsstring \<Rightarrow> jsstring) \<Rightarrow> jsstring \<Rightarrow> jsstring \<Rightarrow> DebugSuggestion list" where
  "relevantSuggestions toLowerCase errorDescription code =
     filter (\<lambda>issue.
        (let keywords = toLowerCase errorDescription in
           includes_str keywords (str ''undefined'') \<or>
           includes_str keywords (str ''null'') \<or>
           includes_str keywords (str ''loop'') \<or>
           includes_str keywords (str ''property'') \<or>
           includes_str code (str ''undefined'') \<or>
           includes_str code (str ''while'') \<or>
           includes_str code (str ''for'')))
       commonIssues"

text \<open>The array handed to \<open>setSuggestions\<close> (line 117).\<close>

definition analyzeError_suggestions ::
  "(jsstring \<Rightarrow> jsstring) \<Rightarrow> jsstring \<Rightarrow> jsstring \<Rightarrow> DebugSuggestion list" where
  "analyzeError_suggestions toLowerCase errorDescription code =
     (let relevant = relevantSuggestions toLowerCase errorDescription code
      in if length relevant > 0 then relevant else commonIssues)"

subsection \<open>The suggestion filter as the specification words it\<close>

definition suggest_predicate :: "(jsstring \<Rightarrow> jsstring) \<Rightarrow> jsstring \<Rightarrow> jsstring \<Rightarrow> bool" where
  "suggest_predicate toLowerCase description code =
     (sublist (str ''undefined'') (toLowerCase description) \<or>
      sublist (str ''null'') (toLowerCase description) \<or>
      sublist (str ''loop'') (toLowerCase description) \<or>
      sublist (str ''property'') (toLowerCase description) \<or>
      sublist (str ''undefined'') code \<or>
      sublist (str ''while'') code \<or>
      sublist (str ''for'') code)"

definition suggest_spec ::
  "(jsstring \<Rightarrow> jsstring) \<Rightarrow> jsstring \<Rightarrow> jsstring \<Rightarrow> DebugSuggestion list" where
  "suggest_spec toLowerCase description code =
     (let filtered = filter (\<lambda>entry. suggest_predicate toLowerCase description code) commonIssues
      in if filtered = [] then commonIssues else filtered)"


section \<open>The page (Index.tsx)\<close>

text \<open>
  The page owns the current code and the active tab. \<open>handleLoadExercise\<close> and
  \<open>handleLoadTutorialCode\<close> are the callbacks it hands to the exercise picker and the
  tutorial walker.
\<close>

record page_state =
  selectedTopic :: "jsstring option"
  currentCode :: jsstring
  activeTab :: jsstring

definition handleLoadExercise :: "jsstring \<Rightarrow> page_state \<Rightarrow> page_state" where
  "handleLoadExercise code p = p\<lparr>currentCode := code, activeTab := str ''editor''\<rparr>"

definition handleLoadTutorialCode :: "jsstring \<Rightarrow> page_state \<Rightarrow> page_state" where
  "handleLoadTutorialCode code p = p\<lparr>currentCode := code, activeTab := str ''editor''\<rparr>"


section \<open>TutorialSystem.tsx\<close>

datatype tutorial_difficulty = Beginner | Intermediate | Advanced

text \<open>
  The interfaces \<open>TutorialStep\<close> (prefix \<open>step_\<close>) and \<open>Tutorial\<close> (prefix \<open>tut_\<close>),
  and the catalog \<open>tutorials\<close> (lines 27 to 190), step by step.
\<close>

record TutorialStep =
  step_id :: jsstring
  step_title :: jsstring
  step_content :: jsstring
  step_code :: "jsstring option"
  step_explanation :: jsstring
  step_tips :: "jsstring list option"

record Tutorial =
  tut_id :: jsstring
  tut_title :: jsstring
  tut_description :: jsstring
  tut_difficulty :: tutorial_difficulty
  tut_duration :: jsstring
  tut_steps :: "TutorialStep list"

definition tutorial_js_basics_step_1 :: TutorialStep where
  \<open>tutorial_js_basics_step_1 =
     \<lparr>step_id = str ''1'',
      step_title = str ''Variables and Data Types'',
      step_content = str ''In JavaScript, you can store data in variables using let, const, or var keywords.'',
      step_code = Some (lns [str ''// Different ways to declare variables'',
                       str ''let name = "John";        // String'',
                       str ''const age = 25;          // Number'',
                       str ''let isStudent = true;    // Boolean'',
                       str ''let hobbies = ["coding", "reading"]; // Array'',
                       str ''let person = { name: "Alice", age: 30 }; // Object'']),
      step_explanation = str ''Variables are containers for storing data. Use "const" for values that won't change, "let" for values that might change, and avoid "var" in modern JavaScript.'',
      step_tips = Some [str ''Always use meaningful variable names'',
                       str ''Prefer const over let when the value doesn't change'',
                       str ''Use camelCase for variable naming'']\<rparr>\<close>

definition tutorial_js_basics_step_2 :: TutorialStep where
  \<open>tutorial_js_basics_step_2 =
     \<lparr>step_id = str ''2'',
      step_title = str ''Functions'',
      step_content = str ''Functions are reusable blocks of code that perform specific tasks.'',
      step_code = Some (lns [str ''// Function declaration'',
                       str ''function greet(name) {'',
                       str ''  return "Hello, " + name + "!";'',
                       str ''}'',
                       [],
                       str ''// Arrow function (ES6+)'',
                       str ''const greetArrow = (name) => {'',
                       str ''  return `Hello, ${name}!`;'',
                       str ''};'',
                       [],
                       str ''// Short arrow function'',
                       str ''const greetShort = name => `Hello, ${name}!`;'',
                       [],
                       str ''// Using the functions'',
                       str ''console.log(greet("Alice"));'',
                       str ''console.log(greetArrow("Bob"));'']),
      step_explanation = str ''Functions help organize code and make it reusable. Arrow functions provide a more concise syntax and have different "this" binding behavior.'',
      step_tips = Some [str ''Keep functions small and focused on one task'',
                       str ''Use descriptive function names'',
                       str ''Consider using arrow functions for short operations'']\<rparr>\<close>

definition tutorial_js_basics_step_3 :: TutorialStep where
  \<open>tutorial_js_basics_step_3 =
     \<lparr>step_id = str ''3'',
      step_title = str ''Control Flow'',
      step_content = str ''Control the flow of your program using conditions and loops.'',
      step_code = Some (lns [str ''// If-else statements'',
                       str ''let score = 85;'',
                       str ''if (score >= 90) {'',
                       str ''  console.log("Excellent!");'',
                       str ''} else if (score >= 70) {'',
                       str ''  console.log("Good job!");'',
                       str ''} else {'',
                       str ''  console.log("Keep practicing!");'',
                       str ''}'',
                       [],
                       str ''// For loop'',
                       str ''for (let i = 0; i < 5; i++) {'',
                       str ''  console.log("Count: " + i);'',
                       str ''}'',
                       [],
                       str ''// Array iteration'',
                       str ''const fruits = ["apple", "banana", "orange"];'',
                       str ''fruits.forEach(fruit => {'',
                       str ''  console.log("I like " + fruit);'',
                       str ''});'']),
      step_explanation = str ''Control flow statements help you make decisions and repeat actions in your code.'',
      step_tips = Some [str ''Use forEach, map, filter for array operations'',
                       str ''Consider switch statements for multiple conditions'',
                       str ''Break complex conditions into smaller, readable parts'']\<rparr>\<close>

definition tutorial_js_basics :: Tutorial where
  \<open>tutorial_js_basics =
     \<lparr>tut_id = str ''js-basics'',
      tut_title = str ''JavaScript Fundamentals'',
      tut_description = str ''Learn the core concepts of JavaScript programming'',
      tut_difficulty = Beginner,
      tut_duration = str ''30 min'',
      tut_steps = [tutorial_js_basics_step_1, tutorial_js_basics_step_2, tutorial_js_basics_step_3]\<rparr>\<close>

definition tutorial_react_intro_step_1 :: TutorialStep where
  \<open>tutorial_react_intro_step_1 =
     \<lparr>step_id = str ''1'',
      step_title = str ''Creating Components'',
      step_content = str ''React components are the building blocks of React applications.'',
      step_code = Some (lns [str ''import React from 'react';'',
                       [],
                       str ''// Functional component'',
                       str ''function Welcome(props) {'',
                       str ''  return <h1>Hello, {props.name}!</h1>;'',
                       str ''}'',
                       [],
                       str ''// Arrow function component'',
                       str ''const WelcomeArrow = ({ name }) => {'',
                       str ''  return <h1>Hello, {name}!</h1>;'',
                       str ''};'',
                       [],
                       str ''// Using the component'',
                       str ''function App() {'',
                       str ''  return ('',
                       str ''    <div>'',
                       str ''      <Welcome name="Alice" />'',
                       str ''      <WelcomeArrow name="Bob" />'',
                       str ''    </div>'',
                       str ''  );'',
                       str ''}'']),
      step_explanation = str ''Components let you split the UI into independent, reusable pieces. Props allow you to pass data from parent to child components.'',
      step_tips = Some [str ''Use PascalCase for component names'',
                       str ''Keep components small and focused'',
                       str ''Use destructuring for props when possible'']\<rparr>\<close>

definition tutorial_react_intro_step_2 :: TutorialStep where
  \<open>tutorial_react_intro_step_2 =
     \<lparr>step_id = str ''2'',
      step_title = str ''State Management'',
      step_content = str ''State allows components to have dynamic data that can change over time.'',
      step_code = Some (lns [str ''import React, { useState } from 'react';'',
                       [],
                       str ''function Counter() {'',
                       str ''  const [count, setCount] = useState(0);'',
                       str ''  const [name, setName] = useState('' @ [0x0027, 0x0027] @ str '');'',
                       [],
                       str ''  return ('',
                       str ''    <div>'',
                       str ''      <h2>Count: {count}</h2>'',
                       str ''      <button onClick={() => setCount(count + 1)}>'',
                       str ''        Increment'',
                       str ''      </button>'',
                       str ''      <button onClick={() => setCount(count - 1)}>'',
                       str ''        Decrement'',
                       str ''      </button>'',
                       str ''      '',
                       str ''      <input '',
                       str ''        type="text"'',
                       str ''        value={name}'',
                       str ''        onChange={(e) => setName(e.target.value)}'',
                       str ''        placeholder="Enter your name"'',
                       str ''      />'',
                       str ''      <p>Hello, {name}!</p>'',
                       str ''    </div>'',
                       str ''  );'',
                       str ''}'']),
      step_explanation = str ''useState hook allows functional components to have state. Always use the setter function to update state.'',
      step_tips = Some [str ''State updates are asynchronous'',
                       str ''Don't mutate state directly'',
                       str ''Use functional updates for complex state logic'']\<rparr>\<close>

definition tutorial_react_intro :: Tutorial where
  \<open>tutorial_react_intro =
     \<lparr>tut_id = str ''react-intro'',
      tut_title = str ''React Components'',
      tut_description = str ''Build interactive user interfaces with React'',
      tut_difficulty = Intermediate,
      tut_duration = str ''45 min'',
      tut_steps = [tutorial_react_intro_step_1, tutorial_react_intro_step_2]\<rparr>\<close>

definition tutorials :: "Tutorial list" where
  "tutorials = [tutorial_js_basics, tutorial_react_intro]"

text \<open>
  Reading an array at a number: \<open>undefined\<close> outside the array (also at -1), modelled
  as \<open>None\<close>. Reading a property of \<open>undefined\<close> raises a \<open>TypeError\<close>.
\<close>

datatype js_error = TypeError

definition at_index :: "'a list \<Rightarrow> int \<Rightarrow> 'a option" where
  "at_index xs i = (if 0 \<le> i \<and> i < int (length xs) then Some (xs ! nat i) else None)"

text \<open>
  \<open>steps[i]?.code\<close> as a condition and as the argument of \<open>onLoadTutorialCode\<close>: the
  code that is loaded, if the step exists and has a code that is not empty.
\<close>

definition code_to_load :: "TutorialStep option \<Rightarrow> jsstring option" where
  "code_to_load st =
     (case st of
        None \<Rightarrow> None
      | Some s \<Rightarrow>
          (case step_code s of
             None \<Rightarrow> None
           | Some c \<Rightarrow> if truthy c then Some c else None))"

text \<open>
  The state of the walker. Each handler returns the new state and the code it hands to
  \<open>onLoadTutorialCode\<close>, if any.
\<close>

record tutorial_state =
  selectedTutorial :: "Tutorial option"
  currentStep :: int
  completedSteps :: "jsstring set"

definition initial_tutorial_state :: tutorial_state where
  "initial_tutorial_state =
     \<lparr>selectedTutorial = None, currentStep = 0, completedSteps = {}\<rparr>"

definition handleTutorialSelect ::
  "Tutorial \<Rightarrow> tutorial_state \<Rightarrow> tutorial_state \<times> jsstring option" where
  "handleTutorialSelect tutorial s =
     (s\<lparr>selectedTutorial := Some tutorial, currentStep := 0\<rparr>,
      code_to_load (at_index (tut_steps tutorial) 0))"

datatype direction = Next | Prev

definition handleStepNavigation ::
  "direction \<Rightarrow> tutorial_state \<Rightarrow> tutorial_state \<times> jsstring option" where
  "handleStepNavigation direction s =
     (case selectedTutorial s of
        None \<Rightarrow> (s, None)
      | Some selected \<Rightarrow>
          (let newStep =
                 (if direction = Next
                  then min (currentStep s + 1) (int (length (tut_steps selected)) - 1)
                  else max (currentStep s - 1) 0)
           in (s\<lparr>currentStep := newStep\<rparr>,
               code_to_load (at_index (tut_steps selected) newStep))))"

definition markStepCompleted :: "tutorial_state \<Rightarrow> js_error + tutorial_state" where
  "markStepCompleted s =
     (case selectedTutorial s of
        None \<Rightarrow> Inr s
      | Some selected \<Rightarrow>
          (case at_index (tut_steps selected) (currentStep s) of
             None \<Rightarrow> Inl TypeError
           | Some step \<Rightarrow>
               Inr (s\<lparr>completedSteps := insert (step_id step) (completedSteps s)\<rparr>)))"

text \<open>The back button (line 299): \<open>setSelectedTutorial(null)\<close>.\<close>

definition deselect :: "tutorial_state \<Rightarrow> tutorial_state" where
  "deselect s = s\<lparr>selectedTutorial := None\<rparr>"

text \<open>
  The user's actions. The cards of the tutorial list are made from \<open>tutorials\<close> (line
  250), so a selected tutorial is an entry of the catalog. A handler that raises
  leaves the state as it was.
\<close>

datatype tutorial_event = Select Tutorial | Navigate direction | MarkComplete | Back

fun tutorial_step :: "tutorial_event \<Rightarrow> tutorial_state \<Rightarrow> tutorial_state" where
  "tutorial_step (Select tutorial) s = fst (handleTutorialSelect tutorial s)"
| "tutorial_step (Navigate direction) s = fst (handleStepNavigation direction s)"
| "tutorial_step MarkComplete s = (case markStepCompleted s of Inl e \<Rightarrow> s | Inr s' \<Rightarrow> s')"
| "tutorial_step Back s = deselect s"

fun tutorial_run :: "tutorial_event list \<Rightarrow> tutorial_state \<Rightarrow> tutorial_state" where
  "tutorial_run [] s = s"
| "tutorial_run (e # es) s = tutorial_run es (tutorial_step e s)"

fun from_catalog :: "tutorial_event \<Rightarrow> bool" where
  "from_catalog (Select tutorial) = (tutorial \<in> set tutorials)"
| "from_catalog e = True"

definition lastStepIndex :: "Tutorial \<Rightarrow> int" where
  "lastStepIndex tutorial = int (length (tut_steps tutorial)) - 1"

text \<open>
  The invariant of the walker: a selected tutorial is an entry of the catalog and the
  step index is an index of its steps.
\<close>

definition valid_step :: "tutorial_state \<Rightarrow> bool" where
  "valid_step s =
     (case selectedTutorial s of
        None \<Rightarrow> True
      | Some selected \<Rightarrow>
          selected \<in> set tutorials \<and> 0 \<le> currentStep s
          \<and> currentStep s \<le> lastStepIndex selected)"


section \<open>ExerciseGenerator.tsx\<close>

datatype exercise_difficulty = Easy | Medium_difficulty | Hard

text \<open>
  The interface \<open>Exercise\<close> (prefix \<open>ex_\<close>), its test cases (prefix \<open>tc_\<close>) and the
  catalog \<open>exercises\<close> (lines 22 to 106).
\<close>

record TestCase =
  tc_input :: jsstring
  tc_expected :: jsstring

record Exercise =
  ex_id :: jsstring
  ex_title :: jsstring
  ex_description :: jsstring
  ex_difficulty :: exercise_difficulty
  ex_topic :: jsstring
  ex_timeEstimate :: jsstring
  ex_points :: int
  ex_starterCode :: jsstring
  ex_solution :: jsstring
  ex_testCases :: "TestCase list"

definition exercise_1 :: Exercise where
  \<open>exercise_1 =
     \<lparr>ex_id = str ''1'',
      ex_title = str ''Array Sum Calculator'',
      ex_description = str ''Write a function that calculates the sum of all numbers in an array'',
      ex_difficulty = Easy,
      ex_topic = str ''Arrays'',
      ex_timeEstimate = str ''5 min'',
      ex_points = 10,
      ex_starterCode = lns [str ''function sumArray(numbers) {'',
                      str ''  // Your code here'',
                      str ''  '',
                      str ''}'',
                      [],
                      str ''// Test your function'',
                      str ''console.log(sumArray([1, 2, 3, 4, 5])); // Should return 15''],
      ex_solution = lns [str ''function sumArray(numbers) {'',
                   str ''  return numbers.reduce((sum, num) => sum + num, 0);'',
                   str ''}''],
      ex_testCases = [\<lparr>tc_input = str ''[1, 2, 3, 4, 5]'', tc_expected = str ''15''\<rparr>,
         \<lparr>tc_input = str ''[10, -5, 3]'', tc_expected = str ''8''\<rparr>,
         \<lparr>tc_input = str ''[]'', tc_expected = str ''0''\<rparr>]\<rparr>\<close>

definition exercise_2 :: Exercise where
  \<open>exercise_2 =
     \<lparr>ex_id = str ''2'',
      ex_title = str ''String Reverser'',
      ex_description = str ''Create a function that reverses a string without using built-in reverse method'',
      ex_difficulty = Medium_difficulty,
      ex_topic = str ''Strings'',
      ex_timeEstimate = str ''10 min'',
      ex_points = 20,
      ex_starterCode = lns [str ''function reverseString(str) {'',
                      str ''  // Your code here - don't use .reverse()'',
                      str ''  '',
                      str ''}'',
                      [],
                      str ''// Test your function'',
                      str ''console.log(reverseString("hello")); // Should return "olleh"''],
      ex_solution = lns [str ''function reverseString(str) {'',
                   str ''  let reversed = '' @ [0x0027, 0x0027] @ str '';'',
                   str ''  for (let i = str.length - 1; i >= 0; i--) {'',
                   str ''    reversed += str[i];'',
                   str ''  }'',
                   str ''  return reversed;'',
                   str ''}''],
      ex_testCases = [\<lparr>tc_input = str ''"hello"'', tc_expected = str ''"olleh"''\<rparr>,
         \<lparr>tc_input = str ''"JavaScript"'', tc_expected = str ''"tpircSavaJ"''\<rparr>,
         \<lparr>tc_input = str ''""'', tc_expected = str ''""''\<rparr>]\<rparr>\<close>

definition exercise_3 :: Exercise where
  \<open>exercise_3 =
     \<lparr>ex_id = str ''3'',
      ex_title = str ''Fibonacci Generator'',
      ex_description = str ''Implement a function that generates the first n numbers in the Fibonacci sequence'',
      ex_difficulty = Hard,
      ex_topic = str ''Algorithms'',
      ex_timeEstimate = str ''15 min'',
      ex_points = 30,
      ex_starterCode = lns [str ''function fibonacci(n) {'',
                      str ''  // Your code here'',
                      str ''  '',
                      str ''}'',
                      [],
                      str ''// Test your function'',
                      str ''console.log(fibonacci(7)); // Should return [0, 1, 1, 2, 3, 5, 8]''],
      ex_solution = lns [str ''function fibonacci(n) {'',
                   str ''  if (n <= 0) return [];'',
                   str ''  if (n === 1) return [0];'',
                   str ''  '',
                   str ''  const sequence = [0, 1];'',
                   str ''  for (let i = 2; i < n; i++) {'',
                   str ''    sequence[i] = sequence[i - 1] + sequence[i - 2];'',
                   str ''  }'',
                   str ''  return sequence;'',
                   str ''}''],
      ex_testCases = [\<lparr>tc_input = str ''7'', tc_expected = str ''[0, 1, 1, 2, 3, 5, 8]''\<rparr>,
         \<lparr>tc_input = str ''1'', tc_expected = str ''[0]''\<rparr>,
         \<lparr>tc_input = str ''0'', tc_expected = str ''[]''\<rparr>]\<rparr>\<close>

definition exercises :: "Exercise list" where
  "exercises = [exercise_1, exercise_2, exercise_3]"

record exercise_state =
  currentExercise :: "Exercise option"
  completedExercises :: "jsstring list"
  showSolution :: bool

definition initial_exercise_state :: exercise_state where
  "initial_exercise_state =
     \<lparr>currentExercise = None, completedExercises = [], showSolution = False\<rparr>"

text \<open>
  \<open>generateRandomExercise\<close> (lines 118 to 124). \<open>random\<close> is the outcome of
  \<open>Math.random()\<close>, a double with \<open>0 \<le> random < 1\<close>; \<open>exercises.length\<close> is a double
  too, and the product is the product of doubles. The result is the new state and the
  code handed to \<open>onLoadExercise\<close>; reading \<open>starterCode\<close> of \<open>undefined\<close> would raise.
\<close>

definition generateRandomExercise ::
  "double \<Rightarrow> exercise_state \<Rightarrow> js_error + (exercise_state \<times> jsstring)" where
  "generateRandomExercise random s =
     (let randomIndex = Math_floor (mul_double random (double_of_nat (length exercises)))
      in case at_index exercises randomIndex of
           None \<Rightarrow> Inl TypeError
         | Some exercise \<Rightarrow>
             Inr (s\<lparr>currentExercise := Some exercise, showSolution := False\<rparr>,
                  ex_starterCode exercise))"

text \<open>\<open>markCompleted\<close> (lines 126 to 130); \<open>Array.prototype.includes\<close> is membership.\<close>

definition markCompleted :: "exercise_state \<Rightarrow> exercise_state" where
  "markCompleted s =
     (case currentExercise s of
        None \<Rightarrow> s
      | Some exercise \<Rightarrow>
          if ex_id exercise \<notin> set (completedExercises s)
          then s\<lparr>completedExercises := completedExercises s @ [ex_id exercise]\<rparr>
          else s)"

text \<open>The solution button (line 231): \<open>setShowSolution(!showSolution)\<close>.\<close>

definition toggleSolution :: "exercise_state \<Rightarrow> exercise_state" where
  "toggleSolution s = s\<lparr>showSolution := \<not> showSolution s\<rparr>"



section \<open>Properties of the analysis\<close>

subsection \<open>The string operations\<close>

lemma includes_str_iff_sublist: "includes_str s searchString \<longleftrightarrow> sublist searchString s"
  by (induction s) (simp_all add: sublist_Cons_right)

lemma split_str_nonempty: "split_str s sep \<noteq> []"
  by (induction s) (simp_all split: list.splits)

lemma split_str_no_sep: "l \<in> set (split_str s sep) \<Longrightarrow> sep \<notin> set l"
proof (induction s arbitrary: l)
  case Nil
  then show ?case by simp
next
  case (Cons c cs)
  obtain h t where ht: "split_str cs sep = h # t"
    using split_str_nonempty [of cs sep] by (cases "split_str cs sep") auto
  show ?case
  proof (cases "c = sep")
    case True
    with Cons show ?thesis by auto
  next
    case False
    with Cons.prems ht have "l = c # h \<or> l \<in> set t" by simp
    moreover have "sep \<notin> set h" using Cons.IH [of h] ht by simp
    moreover have "l \<in> set t \<Longrightarrow> sep \<notin> set l" using Cons.IH [of l] ht by simp
    ultimately show ?thesis using False by auto
  qed
qed


lemma split_str_hd_prefix: "split_str s sep = h # t \<Longrightarrow> prefix h s"
proof (induction s arbitrary: h t)
  case Nil
  then show ?case by simp
next
  case (Cons c cs)
  obtain h' t' where ht: "split_str cs sep = h' # t'"
    using split_str_nonempty [of cs sep] by (cases "split_str cs sep") auto
  have "prefix h' cs" using ht by (rule Cons.IH)
  with Cons.prems ht show ?case by (cases "c = sep") auto
qed

lemma split_str_sublist: "l \<in> set (split_str s sep) \<Longrightarrow> sublist l s"
proof (induction s arbitrary: l)
  case Nil
  then show ?case by simp
next
  case (Cons c cs)
  obtain h t where ht: "split_str cs sep = h # t"
    using split_str_nonempty [of cs sep] by (cases "split_str cs sep") auto
  show ?case
  proof (cases "c = sep")
    case True
    with Cons show ?thesis by (auto simp: sublist_Cons_right)
  next
    case False
    with Cons.prems ht have "l = c # h \<or> l \<in> set t" by simp
    then show ?thesis
    proof
      assume l: "l = c # h"
      have "prefix h cs" using ht by (rule split_str_hd_prefix)
      with l show ?thesis by (simp add: sublist_Cons_right)
    next
      assume "l \<in> set t"
      then have "sublist l cs" using Cons.IH [of l] ht by simp
      then show ?thesis by (simp add: sublist_Cons_right)
    qed
  qed
qed

lemma prefix_split_str_hd:
  "prefix p s \<Longrightarrow> sep \<notin> set p \<Longrightarrow> split_str s sep = h # t \<Longrightarrow> prefix p h"
proof (induction s arbitrary: p h t)
  case Nil
  then show ?case by simp
next
  case (Cons c cs)
  note prems = Cons.prems and IH = Cons.IH
  show ?case
  proof (cases p)
    assume "p = []"
    then show ?thesis by simp
  next
    fix a p' assume p: "p = a # p'"
    from prems(1) have a: "a = c" and p': "prefix p' cs" unfolding p by simp_all
    from prems(2) have c: "c \<noteq> sep" and nsep: "sep \<notin> set p'" unfolding p a by auto
    obtain h' t' where ht: "split_str cs sep = h' # t'"
      using split_str_nonempty [of cs sep] by (cases "split_str cs sep") auto
    from prems(3) c ht have h: "h = c # h'" by simp
    have "prefix p' h'" using IH [OF p' nsep ht] .
    then show ?thesis unfolding h p a by simp
  qed
qed

lemma sublist_split_str:
  "sublist seg s \<Longrightarrow> sep \<notin> set seg \<Longrightarrow> \<exists>l \<in> set (split_str s sep). sublist seg l"
proof (induction s)
  case Nil
  then show ?case by simp
next
  case (Cons c cs)
  obtain h t where ht: "split_str cs sep = h # t"
    using split_str_nonempty [of cs sep] by (cases "split_str cs sep") auto
  from Cons.prems(1) have "prefix seg (c # cs) \<or> sublist seg cs"
    by (simp add: sublist_Cons_right)
  then show ?case
  proof
    assume pre: "prefix seg (c # cs)"
    obtain h2 t2 where ht2: "split_str (c # cs) sep = h2 # t2"
      using split_str_nonempty [of "c # cs" sep] by (cases "split_str (c # cs) sep") auto
    have "prefix seg h2" using prefix_split_str_hd [OF pre Cons.prems(2) ht2] .
    then have "sublist seg h2" by simp
    moreover have "h2 \<in> set (split_str (c # cs) sep)" unfolding ht2 by simp
    ultimately show ?thesis by (rule bexI)
  next
    assume "sublist seg cs"
    then obtain l where l: "l \<in> set (split_str cs sep)" and sl: "sublist seg l"
      using Cons.IH Cons.prems(2) by blast
    show ?thesis
    proof (cases "c = sep")
      case True
      then have "l \<in> set (split_str (c # cs) sep)" using l by simp
      then show ?thesis using sl by (rule bexI [rotated])
    next
      case False
      then have sp: "split_str (c # cs) sep = (c # h) # t" using ht by simp
      from l ht have "l = h \<or> l \<in> set t" by simp
      then show ?thesis
      proof
        assume "l = h"
        with sl have "sublist seg (c # h)" by (simp add: sublist_Cons_right)
        moreover have "c # h \<in> set (split_str (c # cs) sep)" unfolding sp by simp
        ultimately show ?thesis by (rule bexI)
      next
        assume "l \<in> set t"
        then have "l \<in> set (split_str (c # cs) sep)" unfolding sp by simp
        then show ?thesis using sl by (rule bexI [rotated])
      qed
    qed
  qed
qed

text \<open>
  Some segment of \<open>split\<close> is longer than n iff the string has a run of more than n
  code units without a separator.
\<close>

lemma long_line_iff:
  "list_ex (\<lambda>line. length line > n) (split_str s sep) \<longleftrightarrow>
     (\<exists>seg. sublist seg s \<and> sep \<notin> set seg \<and> length seg > n)"
proof
  assume "list_ex (\<lambda>line. length line > n) (split_str s sep)"
  then obtain l where l: "l \<in> set (split_str s sep)" and n: "length l > n"
    unfolding list_ex_iff by (rule bexE)
  have "sublist l s" using l by (rule split_str_sublist)
  moreover have "sep \<notin> set l" using l by (rule split_str_no_sep)
  ultimately have "sublist l s \<and> sep \<notin> set l \<and> length l > n" using n by simp
  then show "\<exists>seg. sublist seg s \<and> sep \<notin> set seg \<and> length seg > n" by (rule exI)
next
  assume "\<exists>seg. sublist seg s \<and> sep \<notin> set seg \<and> length seg > n"
  then obtain seg where seg: "sublist seg s" "sep \<notin> set seg" "length seg > n"
    by (elim exE conjE)
  obtain l where l: "l \<in> set (split_str s sep)" and sl: "sublist seg l"
    using sublist_split_str [OF seg(1) seg(2)] by (rule bexE)
  have "length seg \<le> length l" using sl by (rule sublist_length_le)
  with seg(3) have "length l > n" by simp
  with l show "list_ex (\<lambda>line. length line > n) (split_str s sep)"
    unfolding list_ex_iff by (rule bexI [rotated])
qed



lemma some_long_line:
  "list_ex (\<lambda>line. length line > n) (split_str s sep) = has_long_line s sep n"
  unfolding has_long_line_def by (rule long_line_iff)


subsection \<open>The findings, rule by rule\<close>

lemma analyzeCode_results_eq:
  "analyzeCode_results code language =
     (if sublist (str ''var '') code then [var_warning] else []) @
     (if sublist (str ''console.log'') code \<and> language = str ''javascript''
      then [console_log_info] else []) @
     (if \<not> sublist (str ''function'') code \<and> \<not> sublist (str ''=>'') code \<and> length code > 50
      then [extract_functions_suggestion] else []) @
     (if has_long_line code newline 120 then [long_line_warning] else []) @
     (if sublist (str ''for'') code \<and> sublist (str ''forEach'') code
      then [for_forEach_suggestion] else [])"
  by (simp add: analyzeCode_results_def push_def Let_def includes_str_iff_sublist
        some_long_line)

lemma findings_distinct:
  "distinct [var_warning, console_log_info, extract_functions_suggestion,
             long_line_warning, for_forEach_suggestion]"
  by (simp add: var_warning_def console_log_info_def extract_functions_suggestion_def
        long_line_warning_def for_forEach_suggestion_def)

lemma analyzeCode_results_filter:
  "analyzeCode_results code language =
     map snd (filter (\<lambda>(fires, finding). fires code language) rule_table)"
  by (simp add: analyzeCode_results_eq rule_table_def)


lemma sublist_replicate_left:
  "x \<notin> set p \<Longrightarrow> sublist p (replicate n x @ s) \<longleftrightarrow> sublist p s"
proof (induction n)
  case 0
  then show ?case by simp
next
  case (Suc n)
  have "\<not> prefix p (x # replicate n x @ s) \<or> p = []"
    using Suc.prems by (cases p) auto
  then show ?case using Suc by (auto simp: sublist_Cons_right)
qed

lemma sublist_replicate_right:
  "x \<notin> set p \<Longrightarrow> sublist p (s @ replicate n x) \<longleftrightarrow> sublist p s"
proof -
  assume x: "x \<notin> set p"
  have "sublist p (s @ replicate n x) \<longleftrightarrow> sublist (rev p) (replicate n x @ rev s)"
    using sublist_rev [of p "s @ replicate n x"] by simp
  also have "\<dots> \<longleftrightarrow> sublist (rev p) (rev s)"
    using x by (simp add: sublist_replicate_left)
  also have "\<dots> \<longleftrightarrow> sublist p s" by simp
  finally show ?thesis .
qed

lemma sublist_subset_code:
  "0x78 \<notin> set p \<Longrightarrow> newline \<notin> set p \<Longrightarrow>
     sublist p (subset_code b1 b2 b3 b4 b5) \<longleftrightarrow> includes_str (subset_core b1 b2 b3 b5) p"
  by (simp add: subset_code_def sublist_replicate_left sublist_replicate_right
        includes_str_iff_sublist)

lemma length_subset_core: "length (subset_core b1 b2 b3 b5) \<le> 24"
  by (simp add: subset_core_def str_def)

lemma subset_code_var: "sublist (str ''var '') (subset_code b1 b2 b3 b4 b5) = b1"
  by (cases b1; cases b2; cases b3; cases b5)
     (simp_all add: sublist_subset_code str_def newline_def subset_core_def)

lemma subset_code_console: "sublist (str ''console.log'') (subset_code b1 b2 b3 b4 b5) = b2"
  by (cases b1; cases b2; cases b3; cases b5)
     (simp_all add: sublist_subset_code str_def newline_def subset_core_def)

lemma subset_code_function: "\<not> sublist (str ''function'') (subset_code b1 b2 b3 b4 b5)"
  by (cases b1; cases b2; cases b3; cases b5)
     (simp_all add: sublist_subset_code str_def newline_def subset_core_def)

lemma subset_code_arrow: "sublist (str ''=>'') (subset_code b1 b2 b3 b4 b5) = (\<not> b3)"
  by (cases b1; cases b2; cases b3; cases b5)
     (simp_all add: sublist_subset_code str_def newline_def subset_core_def)

lemma subset_code_for: "sublist (str ''for'') (subset_code b1 b2 b3 b4 b5) = b5"
  by (cases b1; cases b2; cases b3; cases b5)
     (simp_all add: sublist_subset_code str_def newline_def subset_core_def)

lemma subset_code_forEach: "sublist (str ''forEach'') (subset_code b1 b2 b3 b4 b5) = b5"
  by (cases b1; cases b2; cases b3; cases b5)
     (simp_all add: sublist_subset_code str_def newline_def subset_core_def)

lemma subset_code_length: "length (subset_code b1 b2 b3 b4 b5) > 50"
  by (simp add: subset_code_def)

lemma subset_code_long_line: "has_long_line (subset_code b1 b2 b3 b4 b5) newline 120 = b4"
proof (cases b4)
  case True
  have "sublist (replicate 121 0x78) (subset_code b1 b2 b3 b4 b5)"
    using True by (simp add: subset_code_def)
  moreover have "newline \<notin> set (replicate 121 (0x78 :: code_unit))"
    by (simp add: newline_def)
  ultimately have "has_long_line (subset_code b1 b2 b3 b4 b5) newline 120"
    unfolding has_long_line_def by (intro exI [of _ "replicate 121 0x78"]) simp
  with True show ?thesis by simp
next
  case False
  have "\<not> has_long_line (subset_code b1 b2 b3 b4 b5) newline 120"
  proof
    assume "has_long_line (subset_code b1 b2 b3 b4 b5) newline 120"
    then obtain seg where seg: "sublist seg (subset_code b1 b2 b3 b4 b5)"
        "newline \<notin> set seg" "length seg > 120"
      unfolding has_long_line_def by (elim exE conjE)
    from seg(1) False have "sublist seg (subset_core b1 b2 b3 b5 @ replicate 51 newline)"
      by (simp add: subset_code_def)
    then have "sublist seg (subset_core b1 b2 b3 b5)"
      using seg(2) by (simp add: sublist_replicate_right)
    then have "length seg \<le> length (subset_core b1 b2 b3 b5)"
      by (rule sublist_length_le)
    with length_subset_core [of b1 b2 b3 b5] seg(3) show False by simp
  qed
  with False show ?thesis by simp
qed

lemma any_subset_fires:
  "analyzeCode_results (subset_code b1 b2 b3 b4 b5) (str ''javascript'') =
     (if b1 then [var_warning] else []) @
     (if b2 then [console_log_info] else []) @
     (if b3 then [extract_functions_suggestion] else []) @
     (if b4 then [long_line_warning] else []) @
     (if b5 then [for_forEach_suggestion] else [])"
  unfolding analyzeCode_results_eq
  by (simp only: subset_code_var subset_code_console subset_code_function subset_code_arrow
        subset_code_for subset_code_forEach subset_code_length subset_code_long_line
        simp_thms)


text \<open>
  C6. On the code \<open>var x = 1;\<close>, a newline, \<open>console.log(x);\<close> with the language
  \<open>javascript\<close>, the analysis yields exactly two findings: the var warning (medium)
  first and the console.log info (low) second.
\<close>

theorem analyze_var_console_scenario:
  "analyzeCode_results (lns [str ''var x = 1;'', str ''console.log(x);'']) (str ''javascript'')
     = [var_warning, console_log_info]
   \<and> ar_type var_warning = Warning \<and> ar_severity var_warning = Medium
   \<and> ar_type console_log_info = Info \<and> ar_severity console_log_info = Low"
  by (simp add: analyzeCode_results_def push_def str_def newline_def
        var_warning_def console_log_info_def)


text \<open>
  C4. For every code and language the analysis evaluates the five rules independently:
  its output is the findings of exactly the rules whose condition holds, in the rule
  order var warning, console.log info, extract-functions suggestion, long-line warning,
  for/forEach suggestion. The five findings are pairwise different, so nothing is
  merged; the output is a subsequence of the five, of length at most 5; and every
  subset of the rules fires on some input.
\<close>

theorem analyze_rules_independent:
  "analyzeCode_results code language =
     map snd (filter (\<lambda>(fires, finding). fires code language) rule_table)
   \<and> map snd rule_table =
       [var_warning, console_log_info, extract_functions_suggestion,
        long_line_warning, for_forEach_suggestion]
   \<and> distinct (map snd rule_table)
   \<and> subseq (analyzeCode_results code language) (map snd rule_table)
   \<and> length (analyzeCode_results code language) \<le> 5
   \<and> (\<forall>b1 b2 b3 b4 b5. \<exists>code' language'.
         analyzeCode_results code' language' =
           (if b1 then [var_warning] else []) @
           (if b2 then [console_log_info] else []) @
           (if b3 then [extract_functions_suggestion] else []) @
           (if b4 then [long_line_warning] else []) @
           (if b5 then [for_forEach_suggestion] else []))"
proof -
  have table: "map snd rule_table =
       [var_warning, console_log_info, extract_functions_suggestion,
        long_line_warning, for_forEach_suggestion]"
    by (simp add: rule_table_def)
  have sub: "subseq (analyzeCode_results code language) (map snd rule_table)"
    unfolding analyzeCode_results_filter by (intro subseq_map subseq_filter_left)
  have "length (analyzeCode_results code language) \<le> length rule_table"
    unfolding analyzeCode_results_filter by simp
  then have len: "length (analyzeCode_results code language) \<le> 5"
    by (simp add: rule_table_def)
  have dist: "distinct (map snd rule_table)"
    unfolding table by (rule findings_distinct)
  have any: "\<forall>b1 b2 b3 b4 b5. \<exists>code' language'.
         analyzeCode_results code' language' =
           (if b1 then [var_warning] else []) @
           (if b2 then [console_log_info] else []) @
           (if b3 then [extract_functions_suggestion] else []) @
           (if b4 then [long_line_warning] else []) @
           (if b5 then [for_forEach_suggestion] else [])"
    using any_subset_fires by blast
  show ?thesis
    using analyzeCode_results_filter [of code language] table dist sub len any
    by (intro conjI)
qed

text \<open>
  C5. For every code that contains the literal substring \<open>var\<close> followed by a space,
  and every language, the output of the analysis holds the var warning exactly once;
  it is the only finding of type warning and medium severity, and its fix suggests
  let or const.
\<close>

theorem var_warning_exactly_once:
  assumes "sublist (str ''var '') code"
  shows "count_list (analyzeCode_results code language) var_warning = 1
    \<and> filter (\<lambda>f. ar_type f = Warning \<and> ar_severity f = Medium)
         (analyzeCode_results code language) = [var_warning]
    \<and> hd (analyzeCode_results code language) = var_warning"
proof -
  have d: "var_warning \<noteq> console_log_info" "var_warning \<noteq> extract_functions_suggestion"
      "var_warning \<noteq> long_line_warning" "var_warning \<noteq> for_forEach_suggestion"
    using findings_distinct by auto
  have t: "ar_type var_warning = Warning \<and> ar_severity var_warning = Medium"
      "\<not> (ar_type console_log_info = Warning \<and> ar_severity console_log_info = Medium)"
      "\<not> (ar_type extract_functions_suggestion = Warning
           \<and> ar_severity extract_functions_suggestion = Medium)"
      "\<not> (ar_type long_line_warning = Warning \<and> ar_severity long_line_warning = Medium)"
      "\<not> (ar_type for_forEach_suggestion = Warning
           \<and> ar_severity for_forEach_suggestion = Medium)"
    by (simp_all add: var_warning_def console_log_info_def extract_functions_suggestion_def
          long_line_warning_def for_forEach_suggestion_def)
  show ?thesis
    unfolding analyzeCode_results_eq using assms d t by simp
qed

theorem var_warning_exactly_once_witness:
  "sublist (str ''var '') (str ''var a = 1'')
   \<and> count_list (analyzeCode_results (str ''var a = 1'') (str ''python'')) var_warning = 1
   \<and> filter (\<lambda>f. ar_type f = Warning \<and> ar_severity f = Medium)
         (analyzeCode_results (str ''var a = 1'') (str ''python'')) = [var_warning]
   \<and> hd (analyzeCode_results (str ''var a = 1'') (str ''python'')) = var_warning"
proof -
  have h: "sublist (str ''var '') (str ''var a = 1'')"
    unfolding includes_str_iff_sublist [symmetric] by (simp add: str_def)
  show ?thesis
    using h var_warning_exactly_once [OF h, of "str ''python''"] by (intro conjI) simp_all
qed

text \<open>
  C10. For every code and every language, no finding of the analysis has type error
  or severity high: each finding has type warning, info or suggestion, and severity
  medium or low.
\<close>

theorem findings_never_error_never_high:
  "\<forall>f \<in> set (analyzeCode_results code language).
     ar_type f \<in> {Warning, Info, Suggestion} \<and> ar_severity f \<in> {Medium, Low}
     \<and> ar_type f \<noteq> Error \<and> ar_severity f \<noteq> High"
proof
  fix f assume "f \<in> set (analyzeCode_results code language)"
  then have "f \<in> set (map snd rule_table)"
    using analyzeCode_results_filter [of code language] by auto
  then have "f = var_warning \<or> f = console_log_info \<or> f = extract_functions_suggestion
      \<or> f = long_line_warning \<or> f = for_forEach_suggestion"
    by (simp add: rule_table_def)
  then show "ar_type f \<in> {Warning, Info, Suggestion} \<and> ar_severity f \<in> {Medium, Low}
     \<and> ar_type f \<noteq> Error \<and> ar_severity f \<noteq> High"
    by (elim disjE)
       (simp_all add: var_warning_def console_log_info_def extract_functions_suggestion_def
          long_line_warning_def for_forEach_suggestion_def)
qed

theorem findings_never_error_never_high_witness:
  "console_log_info \<in> set (analyzeCode_results (str ''console.log(1)'') (str ''javascript''))
   \<and> ar_type console_log_info \<in> {Warning, Info, Suggestion}
   \<and> ar_severity console_log_info \<in> {Medium, Low}
   \<and> ar_type console_log_info \<noteq> Error \<and> ar_severity console_log_info \<noteq> High"
proof -
  have h: "console_log_info
      \<in> set (analyzeCode_results (str ''console.log(1)'') (str ''javascript''))"
    by (simp add: analyzeCode_results_def push_def str_def newline_def)
  show ?thesis
    using h findings_never_error_never_high
      [of "str ''console.log(1)''" "str ''javascript''", THEN bspec, OF h]
    by (intro conjI) simp_all
qed


section \<open>Properties of the component CodeAnalyzer\<close>

lemma render_analysis: "analysis (render code language s) = analysis s"
  by (simp add: render_def useEffect_def analyzeCode_def)

lemma render_timers:
  "timers (render code language s) =
     (if deps s \<noteq> Some (code, language) \<and> trim code \<noteq> []
      then timers s @ [(code, language)] else timers s)"
  by (simp add: render_def useEffect_def analyzeCode_def truthy_def)

lemma render_isAnalyzing:
  "isAnalyzing (render code language s) =
     (if deps s \<noteq> Some (code, language) \<and> trim code \<noteq> [] then True else isAnalyzing s)"
  by (simp add: render_def useEffect_def analyzeCode_def truthy_def)

lemma timers_run_out:
  "timers s = ts @ [(code, language)] \<Longrightarrow>
     analysis (analyzer_run (replicate (Suc (length ts)) TimerFires) s)
       = analyzeCode_results code language"
proof (induction ts arbitrary: s)
  case Nil
  then show ?case by (simp add: timer_fires_def)
next
  case (Cons t ts)
  obtain c l where t: "t = (c, l)" by (cases t)
  have "timers (timer_fires s) = ts @ [(code, language)]"
    using Cons.prems by (simp add: timer_fires_def t)
  then have "analysis (analyzer_run (replicate (Suc (length ts)) TimerFires) (timer_fires s))
       = analyzeCode_results code language"
    by (rule Cons.IH)
  then show ?case by simp
qed

lemma no_timer_no_change:
  "timers s = [] \<Longrightarrow> analyzer_run (replicate n TimerFires) s = s"
  by (induction n) (simp_all add: timer_fires_def)

lemma trim_blank: "trim (str ''  '') = []"
  by (simp add: trim_def str_def isWhiteSpace_def)

lemma trim_var_x: "trim (str ''var x'') = str ''var x''"
  by (simp add: trim_def str_def isWhiteSpace_def)

lemma results_var_x: "analyzeCode_results (str ''var x'') (str ''javascript'') = [var_warning]"
  by (simp add: analyzeCode_results_def push_def str_def newline_def)

text \<open>
  C3, as the code has it. A render runs the analysis exactly when the code or the
  language differs from the one of the last render (or it is the first render) and the
  code is not blank after trimming: then one callback is scheduled with the new code
  and language, the flag \<open>isAnalyzing\<close> is set, and once the scheduled callbacks have
  run the result set is the analysis of the new code. A render never changes the
  result set by itself: with a blank code nothing is scheduled and the result set
  stays what it was. Starting from the initial state a blank code leaves the result
  set empty, whatever number of timer events follows.
\<close>

theorem effect_invokes_iff_changed_and_nonblank:
  "timers (analyzer_step (Render code language) s) =
     (if deps s \<noteq> Some (code, language) \<and> trim code \<noteq> []
      then timers s @ [(code, language)] else timers s)
   \<and> isAnalyzing (analyzer_step (Render code language) s) =
     (if deps s \<noteq> Some (code, language) \<and> trim code \<noteq> [] then True else isAnalyzing s)
   \<and> analysis (analyzer_step (Render code language) s) = analysis s
   \<and> (deps s \<noteq> Some (code, language) \<and> trim code \<noteq> [] \<longrightarrow>
        analysis (analyzer_run (replicate (Suc (length (timers s))) TimerFires)
                    (analyzer_step (Render code language) s))
          = analyzeCode_results code language)
   \<and> (trim code = [] \<longrightarrow>
        analysis (analyzer_run (replicate n TimerFires)
                    (analyzer_step (Render code language) initial_analyzer)) = [])"
proof (intro conjI impI)
  show "timers (analyzer_step (Render code language) s) =
     (if deps s \<noteq> Some (code, language) \<and> trim code \<noteq> []
      then timers s @ [(code, language)] else timers s)"
    by (simp add: render_timers)
  show "isAnalyzing (analyzer_step (Render code language) s) =
     (if deps s \<noteq> Some (code, language) \<and> trim code \<noteq> [] then True else isAnalyzing s)"
    by (simp add: render_isAnalyzing)
  show "analysis (analyzer_step (Render code language) s) = analysis s"
    by (simp add: render_analysis)
next
  assume "deps s \<noteq> Some (code, language) \<and> trim code \<noteq> []"
  then have "timers (analyzer_step (Render code language) s) = timers s @ [(code, language)]"
    by (simp add: render_timers)
  then show "analysis (analyzer_run (replicate (Suc (length (timers s))) TimerFires)
                    (analyzer_step (Render code language) s))
          = analyzeCode_results code language"
    by (rule timers_run_out)
next
  assume blank: "trim code = []"
  have "timers (analyzer_step (Render code language) initial_analyzer) = []"
    using blank by (simp add: render_timers initial_analyzer_def)
  then have "analyzer_run (replicate n TimerFires)
               (analyzer_step (Render code language) initial_analyzer)
             = analyzer_step (Render code language) initial_analyzer"
    by (rule no_timer_no_change)
  then show "analysis (analyzer_run (replicate n TimerFires)
                    (analyzer_step (Render code language) initial_analyzer)) = []"
    by (simp add: render_analysis initial_analyzer_def)
qed

text \<open>
  The theorem at two inputs: the first render with the code \<open>var x\<close>, and the first
  render with a code of two spaces.
\<close>

theorem effect_invokes_iff_changed_and_nonblank_witness:
  "deps initial_analyzer \<noteq> Some (str ''var x'', str ''javascript'')
   \<and> trim (str ''var x'') \<noteq> []
   \<and> analysis (analyzer_run [TimerFires]
        (analyzer_step (Render (str ''var x'') (str ''javascript'')) initial_analyzer))
       = [var_warning]
   \<and> trim (str ''  '') = []
   \<and> analysis (analyzer_run [TimerFires, TimerFires]
        (analyzer_step (Render (str ''  '') (str ''javascript'')) initial_analyzer)) = []"
proof -
  have h1: "deps initial_analyzer \<noteq> Some (str ''var x'', str ''javascript'')
      \<and> trim (str ''var x'') \<noteq> []"
    by (simp add: initial_analyzer_def trim_var_x) (simp add: str_def)
  have t: "timers initial_analyzer = []" by (simp add: initial_analyzer_def)
  have a: "analysis (analyzer_run [TimerFires]
        (analyzer_step (Render (str ''var x'') (str ''javascript'')) initial_analyzer))
       = [var_warning]"
    using effect_invokes_iff_changed_and_nonblank
      [of "str ''var x''" "str ''javascript''" initial_analyzer 0] h1 t results_var_x
    by simp
  have b: "analysis (analyzer_run [TimerFires, TimerFires]
        (analyzer_step (Render (str ''  '') (str ''javascript'')) initial_analyzer)) = []"
    using effect_invokes_iff_changed_and_nonblank
      [of "str ''  ''" "str ''javascript''" initial_analyzer 2] trim_blank
    by (simp add: numeral_2_eq_2)
  show ?thesis using h1 a b trim_blank by simp
qed

text \<open>
  The result set is not empty for every blank code: after the analysis of \<open>var x\<close>
  has been delivered, a render with a code of two spaces (blank after trimming) still
  shows the var warning.
\<close>

theorem blank_code_shows_earlier_findings:
  "trim (str ''  '') = []
   \<and> analysis (analyzer_run
        [Render (str ''var x'') (str ''javascript''), TimerFires,
         Render (str ''  '') (str ''javascript'')] initial_analyzer) = [var_warning]
   \<and> analysis (analyzer_run
        [Render (str ''var x'') (str ''javascript''), TimerFires,
         Render (str ''  '') (str ''javascript'')] initial_analyzer) \<noteq> []"
proof -
  have "analysis (analyzer_run
        [Render (str ''var x'') (str ''javascript''), TimerFires,
         Render (str ''  '') (str ''javascript'')] initial_analyzer) = [var_warning]"
    by (simp add: render_def useEffect_def analyzeCode_def timer_fires_def truthy_def
          initial_analyzer_def trim_var_x trim_blank results_var_x)
       (simp add: str_def)
  then show ?thesis using trim_blank by simp
qed


section \<open>Properties of the debug suggestions\<close>

lemma filter_constant: "filter (\<lambda>x. P) xs = (if P then xs else [])"
  by simp

lemma relevantSuggestions_filter:
  "relevantSuggestions toLowerCase description code =
     filter (\<lambda>entry. suggest_predicate toLowerCase description code) commonIssues"
  by (simp add: relevantSuggestions_def suggest_predicate_def includes_str_iff_sublist Let_def)

lemma relevantSuggestions_all_or_none:
  "relevantSuggestions toLowerCase description code =
     (if suggest_predicate toLowerCase description code then commonIssues else [])"
  unfolding relevantSuggestions_filter by (rule filter_constant)

lemma commonIssues_length: "length commonIssues = 4"
  by (simp add: commonIssues_def)

lemma commonIssues_ids: "map ds_id commonIssues = [str ''1'', str ''2'', str ''3'', str ''4'']"
  unfolding commonIssues_def commonIssues_1_def commonIssues_2_def commonIssues_3_def
    commonIssues_4_def
  by simp

lemma commonIssues_titles:
  "map ds_title commonIssues =
     [str ''Undefined Variable'', str ''Cannot read property of undefined'',
      str ''Infinite Loop'', str ''Array Index Out of Bounds'']"
  unfolding commonIssues_def commonIssues_1_def commonIssues_2_def commonIssues_3_def
    commonIssues_4_def
  by simp

lemma analyzeError_suggestions_catalog:
  "analyzeError_suggestions toLowerCase description code = commonIssues"
  using commonIssues_length
  by (simp add: analyzeError_suggestions_def relevantSuggestions_all_or_none)

text \<open>
  C1. For every description and every code the suggestions are exactly the catalog
  entries that satisfy the filter predicate of the specification (the lower-cased
  description contains \<open>undefined\<close>, \<open>null\<close>, \<open>loop\<close> or \<open>property\<close>, or the code
  contains \<open>undefined\<close>, \<open>while\<close> or \<open>for\<close>), in the catalog order undefined variable,
  property of undefined, infinite loop, index out of bounds; when no entry satisfies
  it the whole catalog is returned, so the result is never empty.
\<close>

theorem suggest_is_filter_with_fallback:
  "analyzeError_suggestions toLowerCase description code
     = suggest_spec toLowerCase description code
   \<and> relevantSuggestions toLowerCase description code
     = filter (\<lambda>entry. suggest_predicate toLowerCase description code) commonIssues
   \<and> subseq (analyzeError_suggestions toLowerCase description code) commonIssues
   \<and> map ds_title commonIssues =
       [str ''Undefined Variable'', str ''Cannot read property of undefined'',
        str ''Infinite Loop'', str ''Array Index Out of Bounds'']
   \<and> analyzeError_suggestions toLowerCase description code \<noteq> []"
proof -
  have "analyzeError_suggestions toLowerCase description code
      = suggest_spec toLowerCase description code"
    unfolding analyzeError_suggestions_def suggest_spec_def relevantSuggestions_filter
    by (simp add: Let_def)
  moreover have "subseq (analyzeError_suggestions toLowerCase description code) commonIssues"
    unfolding analyzeError_suggestions_def relevantSuggestions_filter
    by (simp add: Let_def)
  moreover have "analyzeError_suggestions toLowerCase description code \<noteq> []"
    using commonIssues_length
    unfolding analyzeError_suggestions_def relevantSuggestions_filter
    by (auto simp: Let_def)
  ultimately show ?thesis
    using relevantSuggestions_filter [of toLowerCase description code] commonIssues_titles
    by (intro conjI)
qed

text \<open>
  C2. For every description and every code the suggestions are the whole catalog of
  four entries in catalog order: the filter predicate does not read the entry, so the
  filter keeps all entries or none, and with none the catalog is returned.
\<close>

theorem suggest_is_whole_catalog:
  "analyzeError_suggestions toLowerCase description code = commonIssues
   \<and> (relevantSuggestions toLowerCase description code = commonIssues
      \<or> relevantSuggestions toLowerCase description code = [])
   \<and> length commonIssues = 4
   \<and> map ds_id commonIssues = [str ''1'', str ''2'', str ''3'', str ''4'']"
proof -
  have "relevantSuggestions toLowerCase description code = commonIssues
      \<or> relevantSuggestions toLowerCase description code = []"
    by (simp add: relevantSuggestions_all_or_none)
  then show ?thesis
    using analyzeError_suggestions_catalog [of toLowerCase description code]
      commonIssues_length commonIssues_ids
    by (intro conjI)
qed


section \<open>Properties of the numbers\<close>

text \<open>\<open>Math_floor\<close> is the floor of the number that the pair stands for.\<close>

lemma Math_floor_value: "Math_floor d = \<lfloor>double_value d\<rfloor>"
proof (cases d)
  case (Pair m e)
  show ?thesis
  proof (cases "0 \<le> e")
    case True
    have "real m * 2 ^ nat e = real_of_int (int (m * 2 ^ nat e))" by simp
    then have "\<lfloor>real m * 2 ^ nat e\<rfloor> = int (m * 2 ^ nat e)"
      by (simp only: floor_of_int)
    then show ?thesis using True Pair by (simp add: Math_floor_def double_value_def)
  next
    case False
    have "\<lfloor>real m / real (2 ^ nat (- e))\<rfloor> = int (m div 2 ^ nat (- e))"
      by (rule floor_divide_of_nat_eq)
    then show ?thesis using False Pair by (simp add: Math_floor_def double_value_def)
  qed
qed

lemma round_half_even_zero: "round_half_even p 0 = p"
  by (simp add: round_half_even_def)

text \<open>The rounded mantissa is within half a unit of \<open>p / 2 ^ k\<close>.\<close>

lemma round_half_even_upper: "2 * (round_half_even p k * 2 ^ k) \<le> 2 * p + 2 ^ k"
proof -
  define q where "q = p div 2 ^ k"
  define r where "r = p mod 2 ^ k"
  have p: "p = q * 2 ^ k + r" unfolding q_def r_def by (rule div_mult_mod_eq [symmetric])
  show ?thesis
  proof (cases "2 * r > 2 ^ k \<or> (2 * r = 2 ^ k \<and> odd q)")
    case True
    then have "round_half_even p k = q + 1"
      by (simp add: round_half_even_def q_def r_def Let_def)
    moreover have "2 ^ k \<le> 2 * r" using True by auto
    ultimately show ?thesis unfolding p by (simp add: algebra_simps)
  next
    case False
    then have "round_half_even p k = q"
      by (simp add: round_half_even_def q_def r_def Let_def)
    then show ?thesis unfolding p by (simp add: algebra_simps)
  qed
qed

lemma round_half_even_lower: "2 * p \<le> 2 * (round_half_even p k * 2 ^ k) + 2 ^ k"
proof -
  define q where "q = p div 2 ^ k"
  define r where "r = p mod 2 ^ k"
  have p: "p = q * 2 ^ k + r" unfolding q_def r_def by (rule div_mult_mod_eq [symmetric])
  show ?thesis
  proof (cases "2 * r > 2 ^ k \<or> (2 * r = 2 ^ k \<and> odd q)")
    case True
    then have "round_half_even p k = q + 1"
      by (simp add: round_half_even_def q_def r_def Let_def)
    moreover have "r < 2 ^ k" by (simp add: r_def)
    ultimately show ?thesis unfolding p by (simp add: algebra_simps)
  next
    case False
    then have "round_half_even p k = q"
      by (simp add: round_half_even_def q_def r_def Let_def)
    moreover have "2 * r \<le> 2 ^ k" using False by auto
    ultimately show ?thesis unfolding p by (simp add: algebra_simps)
  qed
qed

lemma double_value_less_one:
  "double_value (m, e) < 1 \<longleftrightarrow> m < 2 ^ nat (- e)"
proof (cases "0 \<le> e")
  case True
  have "real m * 2 ^ nat e < 1 \<longleftrightarrow> m = 0"
  proof
    assume lt: "real m * 2 ^ nat e < 1"
    have "real m \<le> real m * 2 ^ nat e" by (simp add: mult_le_cancel_left1)
    with lt have "real m < 1" by simp
    then show "m = 0" by simp
  qed simp
  then show ?thesis using True by (simp add: double_value_def)
next
  case False
  have "real m / 2 ^ nat (- e) < 1 \<longleftrightarrow> real m < 2 ^ nat (- e)"
    by (simp add: divide_less_eq)
  also have "\<dots> \<longleftrightarrow> m < 2 ^ nat (- e)"
    using of_nat_less_iff [of m "2 ^ nat (- e)", where ?'a = real] by simp
  finally show ?thesis using False by (simp add: double_value_def)
qed

text \<open>
  A double below 1, times 3, has a floor below 3: the rounding of the product cannot
  reach 3. A double below 1 is at most \<open>1 - 2 ^ e\<close>, the exact product at most
  \<open>3 - 3 * 2 ^ e\<close>, and at most 2 bits are rounded away, which adds at most
  \<open>2 * 2 ^ e\<close>.
\<close>

lemma times_three_index:
  assumes m: "m < 2 ^ 53" and e: "- 1074 \<le> e" and lt: "m < 2 ^ nat (- e)"
  shows "0 \<le> Math_floor (mul_double (m, e) (double_of_nat 3))"
    and "Math_floor (mul_double (m, e) (double_of_nat 3)) < 3"
proof -
  define p where "p = m * 3"
  define k where "k = nat (max 0 (bitlen (int p) - 53))"
  have mul: "mul_double (m, e) (double_of_nat 3) = (round_half_even p k, e + int k)"
    using e by (simp add: mul_double_def double_of_nat_def p_def k_def Let_def max_def)
  show "0 \<le> Math_floor (mul_double (m, e) (double_of_nat 3))"
    unfolding mul by (simp add: Math_floor_def)
  have "int p < 2 ^ nat 55" using m by (simp add: p_def)
  then have "bitlen (int p) \<le> 55"
    using bitlen_le_iff_power [of "int p" 55] by simp
  then have k2: "k \<le> 2" by (simp add: k_def)
  show "Math_floor (mul_double (m, e) (double_of_nat 3)) < 3"
  proof (cases "k = 0")
    case True
    show ?thesis
    proof (cases "0 \<le> e")
      case True
      then have "m = 0" using lt by simp
      then show ?thesis unfolding mul using \<open>k = 0\<close> True
        by (simp add: Math_floor_def round_half_even_zero p_def)
    next
      case False
      have "p < 3 * 2 ^ nat (- e)" using lt by (simp add: p_def)
      then have "p div 2 ^ nat (- e) < 3"
        by (simp add: div_less_iff_less_mult)
      then show ?thesis unfolding mul using \<open>k = 0\<close> False
        by (simp add: Math_floor_def round_half_even_zero)
    qed
  next
    case False
    then have "54 \<le> bitlen (int p)" by (simp add: k_def)
    then have "2 ^ (nat 54 - 1) \<le> int p"
      using bitlen_ge_iff_power [of 54 "int p"] by simp
    moreover have "nat 54 - 1 = 53" by simp
    ultimately have "(2::int) ^ 53 \<le> int p" by (simp only:)
    then have "int (2 ^ 53) \<le> int p" by simp
    then have big: "(2::nat) ^ 53 \<le> p" by (simp only: of_nat_le_iff)
    define n where "n = nat (- e)"
    have mn: "m < 2 ^ n" using lt by (simp add: n_def)
    have "(2::nat) ^ 53 < 3 * 2 ^ n" using big mn by (simp add: p_def)
    then have "(2::nat) ^ 51 * 4 < 4 * 2 ^ n" by simp
    then have "(2::nat) ^ 51 < 2 ^ n" by simp
    then have n51: "51 < n" by (simp only: power_strict_increasing_iff)
    then have eneg: "e < 0" and kn: "k \<le> n" using k2 by (simp_all add: n_def)
    have en: "nat (- (e + int k)) = n - k" using eneg kn by (simp add: n_def)
    have ek: "\<not> 0 \<le> e + int k" using n51 k2 by (simp add: n_def)
    have pk: "(2::nat) ^ k \<le> 4"
      using power_increasing [of k 2 "2::nat"] k2 by simp
    have split: "(2::nat) ^ n = 2 ^ (n - k) * 2 ^ k"
      using kn by (simp flip: power_add)
    have "p + 3 \<le> 3 * 2 ^ n" using mn by (simp add: p_def)
    then have "2 * p + 2 ^ k < 2 * (3 * 2 ^ n)" using pk by simp
    then have "2 * (round_half_even p k * 2 ^ k) < 2 * (3 * 2 ^ n)"
      using round_half_even_upper [of p k] by simp
    then have "round_half_even p k * 2 ^ k < (3 * 2 ^ (n - k)) * 2 ^ k"
      unfolding split by simp
    then have "round_half_even p k < 3 * 2 ^ (n - k)" by simp
    then have "round_half_even p k div 2 ^ (n - k) < 3"
      by (simp add: div_less_iff_less_mult)
    then show ?thesis unfolding mul using ek en by (simp add: Math_floor_def)
  qed
qed

lemma ex2: "is_double (6004799503160661, - 53) \<and> double_value (6004799503160661, - 53) < 1"
  by (simp add: is_double_def double_value_def)

text \<open>
  The double 0.6666666666666666 is \<open>6004799503160661 * 2 ^ -53\<close>. Three times its
  mantissa is \<open>2 ^ 54 - 1\<close>, one bit too long, and rounds to the even mantissa
  \<open>2 ^ 53\<close>: the product of doubles is exactly 2, while the product of the real numbers
  is below 2.
\<close>

lemma bitlen_example: "bitlen 18014398509481983 = 54"
proof -
  have "bitlen 18014398509481983 \<le> 54"
    using bitlen_le_iff_power [of 18014398509481983 54] by simp
  moreover have "54 \<le> bitlen 18014398509481983"
    using bitlen_ge_iff_power [of 54 18014398509481983] by simp
  ultimately show ?thesis by simp
qed

lemma round_example: "round_half_even 18014398509481983 (Suc 0) = 9007199254740992"
  by (simp add: round_half_even_def)

lemma mul_example:
  "mul_double (6004799503160661, - 53) (double_of_nat 3) = (9007199254740992, - 52)"
  unfolding mul_double_def double_of_nat_def
  by (simp add: bitlen_example round_example)


section \<open>Properties of the exercise picker\<close>

lemma exercises_ids: "map ex_id exercises = [str ''1'', str ''2'', str ''3'']"
  unfolding exercises_def exercise_1_def exercise_2_def exercise_3_def by simp

lemma at_index_member: "at_index xs i = Some x \<Longrightarrow> x \<in> set xs"
  by (auto simp: at_index_def split: if_splits)

lemma at_index_in_range:
  "0 \<le> i \<Longrightarrow> i < int (length xs) \<Longrightarrow> at_index xs i = Some (xs ! nat i)"
  by (simp add: at_index_def)

lemma exercises_length: "length exercises = 3"
  by (simp add: exercises_def)

lemma randomIndex_in_range:
  assumes "is_double random" and "double_value random < 1"
  shows "0 \<le> Math_floor (mul_double random (double_of_nat (length exercises)))"
    and "Math_floor (mul_double random (double_of_nat (length exercises)))
           < int (length exercises)"
proof -
  obtain m e where r: "random = (m, e)" by (cases random)
  have m: "m < 2 ^ 53" and e: "- 1074 \<le> e"
    using assms(1) by (simp_all add: is_double_def r)
  have lt: "m < 2 ^ nat (- e)"
    using assms(2) by (simp add: r double_value_less_one)
  show "0 \<le> Math_floor (mul_double random (double_of_nat (length exercises)))"
    unfolding r exercises_length using m e lt by (rule times_three_index(1))
  have "Math_floor (mul_double (m, e) (double_of_nat 3)) < 3"
    using m e lt by (rule times_three_index(2))
  then show "Math_floor (mul_double random (double_of_nat (length exercises)))
           < int (length exercises)"
    by (simp add: r exercises_length)
qed

text \<open>
  C8. \<open>markCompleted\<close> is idempotent: a second call leaves the state of the first call.
  It keeps the current exercise; with an exercise selected the completed set becomes
  the old one with the identifier of the exercise added, the state is unchanged if the
  identifier was there already, and the identifier is appended otherwise; with no
  exercise selected the state is unchanged.
\<close>

theorem markCompleted_idempotent:
  "markCompleted (markCompleted s) = markCompleted s
   \<and> currentExercise (markCompleted s) = currentExercise s
   \<and> (case currentExercise s of
        None \<Rightarrow> markCompleted s = s
      | Some exercise \<Rightarrow>
          set (completedExercises (markCompleted s))
            = insert (ex_id exercise) (set (completedExercises s))
          \<and> (if ex_id exercise \<in> set (completedExercises s)
             then markCompleted s = s
             else completedExercises (markCompleted s)
                    = completedExercises s @ [ex_id exercise]))"
  by (cases "currentExercise s") (auto simp: markCompleted_def)

text \<open>
  C9. For every outcome \<open>random\<close> of \<open>Math.random()\<close>, that is every double with
  \<open>0 \<le> random < 1\<close>, \<open>generateRandomExercise\<close> does not raise, selects an exercise of the
  catalog whose identifier is 1, 2 or 3, sets the solution flag to hidden and hands the
  starter code of that exercise to \<open>onLoadExercise\<close>, which makes it the current code of
  the page.
\<close>

theorem generateRandomExercise_in_catalog:
  assumes "is_double random" and "double_value random < 1"
  shows "\<exists>exercise.
     generateRandomExercise random s
       = Inr (s\<lparr>currentExercise := Some exercise, showSolution := False\<rparr>,
              ex_starterCode exercise)
     \<and> exercise \<in> set exercises
     \<and> ex_id exercise \<in> {str ''1'', str ''2'', str ''3''}
     \<and> currentCode (handleLoadExercise (ex_starterCode exercise) page)
         = ex_starterCode exercise"
proof -
  define i where "i = Math_floor (mul_double random (double_of_nat (length exercises)))"
  have "0 \<le> i" and "i < int (length exercises)"
    unfolding i_def using assms by (rule randomIndex_in_range)+
  then have at: "at_index exercises i = Some (exercises ! nat i)"
    by (rule at_index_in_range)
  let ?e = "exercises ! nat i"
  have mem: "?e \<in> set exercises" using at by (rule at_index_member)
  then have "ex_id ?e \<in> set (map ex_id exercises)" by simp
  then have ids: "ex_id ?e \<in> {str ''1'', str ''2'', str ''3''}"
    unfolding exercises_ids by simp
  have "generateRandomExercise random s
       = Inr (s\<lparr>currentExercise := Some ?e, showSolution := False\<rparr>, ex_starterCode ?e)"
    using at by (simp add: generateRandomExercise_def i_def)
  moreover have "currentCode (handleLoadExercise (ex_starterCode ?e) page) = ex_starterCode ?e"
    by (simp add: handleLoadExercise_def)
  ultimately show ?thesis using mem ids by blast
qed

text \<open>
  The theorem at the outcome 0.6666666666666666, where the product of doubles is 2
  and exercise 3 is selected.
\<close>

theorem generateRandomExercise_in_catalog_witness:
  "is_double (6004799503160661, - 53)
   \<and> double_value (6004799503160661, - 53) < 1
   \<and> generateRandomExercise (6004799503160661, - 53)
        (initial_exercise_state\<lparr>showSolution := True\<rparr>)
       = Inr (\<lparr>currentExercise = Some exercise_3, completedExercises = [],
               showSolution = False\<rparr>, ex_starterCode exercise_3)
   \<and> (\<exists>exercise.
       generateRandomExercise (6004799503160661, - 53)
           (initial_exercise_state\<lparr>showSolution := True\<rparr>)
         = Inr (initial_exercise_state
                  \<lparr>showSolution := True, currentExercise := Some exercise,
                   showSolution := False\<rparr>, ex_starterCode exercise)
       \<and> exercise \<in> set exercises
       \<and> ex_id exercise \<in> {str ''1'', str ''2'', str ''3''}
       \<and> currentCode (handleLoadExercise (ex_starterCode exercise)
            \<lparr>selectedTopic = None, currentCode = [], activeTab = []\<rparr>)
           = ex_starterCode exercise)"
proof -
  have h: "is_double (6004799503160661, - 53)"
      "double_value (6004799503160661, - 53) < 1"
    by (simp_all add: is_double_def double_value_def)
  have i: "Math_floor (mul_double (6004799503160661, - 53) (double_of_nat (length exercises)))
      = 2"
    unfolding exercises_length mul_example by (simp add: Math_floor_def)
  have e: "generateRandomExercise (6004799503160661, - 53)
        (initial_exercise_state\<lparr>showSolution := True\<rparr>)
       = Inr (\<lparr>currentExercise = Some exercise_3, completedExercises = [],
               showSolution = False\<rparr>, ex_starterCode exercise_3)"
    unfolding generateRandomExercise_def i
    by (simp add: exercises_def at_index_def initial_exercise_state_def)
  show ?thesis
    using h e generateRandomExercise_in_catalog [OF h,
        of "initial_exercise_state\<lparr>showSolution := True\<rparr>"
           "\<lparr>selectedTopic = None, currentCode = [], activeTab = []\<rparr>"]
    by (intro conjI) simp_all
qed


section \<open>Properties of the tutorial walker\<close>

lemma tutorials_steps_nonempty: "tutorial \<in> set tutorials \<Longrightarrow> tut_steps tutorial \<noteq> []"
  unfolding tutorials_def tutorial_js_basics_def tutorial_react_intro_def by auto

lemma valid_step_initial: "valid_step initial_tutorial_state"
  by (simp add: valid_step_def initial_tutorial_state_def)

lemma lastStepIndex_catalog: "tutorial \<in> set tutorials \<Longrightarrow> 0 \<le> lastStepIndex tutorial"
  using tutorials_steps_nonempty [of tutorial]
  by (cases "tut_steps tutorial") (simp_all add: lastStepIndex_def)

lemma valid_step_step:
  assumes "valid_step s" and "from_catalog e"
  shows "valid_step (tutorial_step e s)"
proof (cases e)
  case (Select tutorial)
  then have "tutorial \<in> set tutorials" using assms(2) by simp
  then show ?thesis
    using Select lastStepIndex_catalog [of tutorial]
    by (simp add: valid_step_def handleTutorialSelect_def)
next
  case (Navigate direction)
  show ?thesis
  proof (cases "selectedTutorial s")
    case None
    then show ?thesis using Navigate assms(1) by (simp add: handleStepNavigation_def)
  next
    case (Some selected)
    then show ?thesis
      using Navigate assms(1)
      by (cases direction)
         (auto simp: valid_step_def handleStepNavigation_def lastStepIndex_def Let_def)
  qed
next
  case MarkComplete
  then show ?thesis
    using assms(1)
    by (auto simp: valid_step_def markStepCompleted_def split: option.splits sum.splits)
next
  case Back
  then show ?thesis by (simp add: valid_step_def deselect_def)
qed

lemma valid_step_run:
  "valid_step s \<Longrightarrow> list_all from_catalog es \<Longrightarrow> valid_step (tutorial_run es s)"
proof (induction es arbitrary: s)
  case Nil
  then show ?case by simp
next
  case (Cons e es)
  then have "valid_step (tutorial_step e s)" by (simp add: valid_step_step)
  then show ?case using Cons by simp
qed

lemma navigate_index:
  "selectedTutorial s = Some selected \<Longrightarrow>
     currentStep (fst (handleStepNavigation direction s)) =
       (if direction = Next then min (currentStep s + 1) (lastStepIndex selected)
        else max (currentStep s - 1) 0)
     \<and> selectedTutorial (fst (handleStepNavigation direction s)) = Some selected"
  by (simp add: handleStepNavigation_def lastStepIndex_def Let_def)

text \<open>
  C7. In every state that the user's actions reach from the initial state, with a
  tutorial selected, the step index is an index of the tutorial's steps, between 0 and
  the last step index. Navigating to the next step at the last step leaves the index
  unchanged (and moves by one otherwise), navigating to the previous step at step 0
  leaves it unchanged (and moves by one otherwise), and after a navigation in either
  direction the index is again an index of the steps.
\<close>

theorem step_index_clamped:
  assumes "list_all from_catalog es"
    and "s = tutorial_run es initial_tutorial_state"
    and "selectedTutorial s = Some selected"
  shows "0 \<le> currentStep s \<and> currentStep s \<le> lastStepIndex selected
    \<and> at_index (tut_steps selected) (currentStep s) \<noteq> None
    \<and> currentStep (fst (handleStepNavigation Next s)) =
        (if currentStep s = lastStepIndex selected then currentStep s else currentStep s + 1)
    \<and> currentStep (fst (handleStepNavigation Prev s)) =
        (if currentStep s = 0 then currentStep s else currentStep s - 1)
    \<and> 0 \<le> currentStep (fst (handleStepNavigation direction s))
    \<and> currentStep (fst (handleStepNavigation direction s)) \<le> lastStepIndex selected
    \<and> at_index (tut_steps selected) (currentStep (fst (handleStepNavigation direction s)))
        \<noteq> None"
proof -
  have "valid_step s"
    unfolding assms(2) using valid_step_initial assms(1) by (rule valid_step_run)
  then have range: "0 \<le> currentStep s" "currentStep s \<le> lastStepIndex selected"
    using assms(3) by (simp_all add: valid_step_def)
  have nav: "currentStep (fst (handleStepNavigation d s)) =
       (if d = Next then min (currentStep s + 1) (lastStepIndex selected)
        else max (currentStep s - 1) 0)" for d
    using navigate_index [OF assms(3), of d] by simp
  have idx: "0 \<le> i \<Longrightarrow> i \<le> lastStepIndex selected
      \<Longrightarrow> at_index (tut_steps selected) i \<noteq> None" for i
    by (simp add: at_index_def lastStepIndex_def)
  have d: "0 \<le> currentStep (fst (handleStepNavigation direction s))
      \<and> currentStep (fst (handleStepNavigation direction s)) \<le> lastStepIndex selected"
    using range by (cases direction) (simp_all add: nav)
  show ?thesis
    using range d idx [of "currentStep s"]
      idx [of "currentStep (fst (handleStepNavigation direction s))"]
    by (simp add: nav)
qed

lemma js_basics_in_catalog: "tutorial_js_basics \<in> set tutorials"
  by (simp add: tutorials_def)

lemma js_basics_last: "lastStepIndex tutorial_js_basics = 2"
  by (simp add: lastStepIndex_def tutorial_js_basics_def)

lemma js_basics_at_last:
  "tutorial_run [Select tutorial_js_basics, Navigate Next, Navigate Next]
     initial_tutorial_state
   = \<lparr>selectedTutorial = Some tutorial_js_basics, currentStep = 2, completedSteps = {}\<rparr>"
  by (simp add: handleTutorialSelect_def handleStepNavigation_def Let_def
        initial_tutorial_state_def)
     (simp add: tutorial_js_basics_def)

text \<open>
  The theorem in the state reached by selecting the first tutorial and going to its
  last step, the third.
\<close>

theorem step_index_clamped_witness:
  "list_all from_catalog [Select tutorial_js_basics, Navigate Next, Navigate Next]
   \<and> selectedTutorial
       (tutorial_run [Select tutorial_js_basics, Navigate Next, Navigate Next]
          initial_tutorial_state) = Some tutorial_js_basics
   \<and> currentStep
       (tutorial_run [Select tutorial_js_basics, Navigate Next, Navigate Next]
          initial_tutorial_state) = 2
   \<and> lastStepIndex tutorial_js_basics = 2
   \<and> currentStep (fst (handleStepNavigation Next
       (tutorial_run [Select tutorial_js_basics, Navigate Next, Navigate Next]
          initial_tutorial_state))) = 2
   \<and> currentStep (fst (handleStepNavigation Prev
       (tutorial_run [Select tutorial_js_basics, Navigate Next, Navigate Next]
          initial_tutorial_state))) = 1"
proof -
  let ?es = "[Select tutorial_js_basics, Navigate Next, Navigate Next]"
  let ?s = "tutorial_run ?es initial_tutorial_state"
  have h1: "list_all from_catalog ?es" by (simp add: js_basics_in_catalog)
  have h3: "selectedTutorial ?s = Some tutorial_js_basics"
    unfolding js_basics_at_last by simp
  have c: "currentStep ?s = 2" unfolding js_basics_at_last by simp
  show ?thesis
    using step_index_clamped [OF h1 refl h3, of Next] h1 h3 c js_basics_last
    by simp
qed

end
